theory Spec2Isabelle
  imports Complex_Main
begin

section \<open>The container images\<close>

text \<open>
  A Dockerfile is a list of instructions. \<open>RUN\<close> is used in its shell form only; its
  command line is kept as the list of its words, line continuations joined. \<open>CMD\<close> is
  used in its exec form, a JSON array of words.
\<close>

datatype instruction =
    FROM string
  | RUN "string list"
  | COPY string string
  | CMD "string list"
  | EXPOSE nat

type_synonym dockerfile = "instruction list"

text \<open>The Dockerfile on the NVIDIA image.\<close>

definition Dockerfile_nvidia :: dockerfile where
  "Dockerfile_nvidia =
    [FROM ''nvcr.io/nvidia/pytorch:22.02-py3'',
     RUN [''apt-get'', ''update'', ''&&'', ''apt-get'', ''install'', ''-y'', ''git''],
     RUN [''pip'', ''install'', ''jupyterlab'', ''ipykernel'', ''ipywidgets''],
     COPY ''requirements.txt'' ''/tmp/requirements.txt'',
     RUN [''pip3'', ''install'', ''-r'', ''/tmp/requirements.txt''],
     CMD [''jupyter'', ''notebook'', ''--ip=0.0.0.0'', ''--port=8888'', ''--allow-root'',
          ''--no-browser''],
     EXPOSE 8888]"

text \<open>The Dockerfile on the PyTorch runtime image.\<close>

definition Dockerfile_runtime :: dockerfile where
  "Dockerfile_runtime =
    [FROM ''pytorch/pytorch:1.11.0-cuda11.3-cudnn8-runtime'',
     RUN [''apt-get'', ''update''],
     RUN [''pip'', ''install'', ''h5py'', ''ipykernel>=6.0.0'', ''notebook'', ''numpy'',
          ''pandas'', ''scipy'', ''seaborn''],
     COPY ''requirements.txt'' ''/tmp/requirements.txt'',
     RUN [''pip3'', ''install'', ''-r'', ''/tmp/requirements.txt''],
     CMD [''jupyter'', ''notebook'', ''--port=8888'', ''--no-browser'', ''--ip=0.0.0.0'',
          ''--allow-root''],
     EXPOSE 8888]"

text \<open>
  What a build and a start of the container read off a Dockerfile: the base image is the
  argument of the first \<open>FROM\<close>; the packages given to \<open>pip install\<close>; the requirements
  files installed with \<open>-r\<close>; the files copied in; the command of the last \<open>CMD\<close>; the
  exposed ports.
\<close>

fun base_image :: "dockerfile \<Rightarrow> string option" where
  "base_image [] = None"
| "base_image (FROM img # rest) = Some img"
| "base_image (_ # rest) = base_image rest"

text \<open>
  An image reference is \<open>[registry/]path/name:tag\<close>; the repository name is its last path
  component before the tag.
\<close>

definition repository_name :: "string \<Rightarrow> string" where
  "repository_name img =
     rev (takeWhile (\<lambda>c. c \<noteq> CHR ''/'') (rev (takeWhile (\<lambda>c. c \<noteq> CHR '':'') img)))"

fun is_pip :: "string \<Rightarrow> bool" where
  "is_pip w = (w = ''pip'' \<or> w = ''pip3'')"

fun pip_packages :: "dockerfile \<Rightarrow> string list" where
  "pip_packages [] = []"
| "pip_packages (RUN (p # i # args) # rest) =
     (if is_pip p \<and> i = ''install'' \<and> take 1 args \<noteq> [''-r'']
      then args @ pip_packages rest else pip_packages rest)"
| "pip_packages (_ # rest) = pip_packages rest"

fun pip_requirements :: "dockerfile \<Rightarrow> string list" where
  "pip_requirements [] = []"
| "pip_requirements (RUN [p, i, r, file] # rest) =
     (if is_pip p \<and> i = ''install'' \<and> r = ''-r''
      then file # pip_requirements rest else pip_requirements rest)"
| "pip_requirements (_ # rest) = pip_requirements rest"

fun copied :: "dockerfile \<Rightarrow> (string \<times> string) list" where
  "copied [] = []"
| "copied (COPY src dst # rest) = (src, dst) # copied rest"
| "copied (_ # rest) = copied rest"

fun container_command :: "dockerfile \<Rightarrow> string list option" where
  "container_command [] = None"
| "container_command (CMD ws # rest) =
     (case container_command rest of None \<Rightarrow> Some ws | Some later \<Rightarrow> Some later)"
| "container_command (_ # rest) = container_command rest"

fun exposed_ports :: "dockerfile \<Rightarrow> nat list" where
  "exposed_ports [] = []"
| "exposed_ports (EXPOSE p # rest) = p # exposed_ports rest"
| "exposed_ports (_ # rest) = exposed_ports rest"

text \<open>
  The Jupyter distributions on PyPI that bring the notebook server: the classic
  \<open>notebook\<close> package, \<open>jupyterlab\<close> and the \<open>jupyter\<close> metapackage.
\<close>

definition jupyter_packages :: "string list" where
  "jupyter_packages = [''jupyter'', ''jupyterlab'', ''notebook'']"

definition installs_jupyter :: "dockerfile \<Rightarrow> bool" where
  "installs_jupyter d = list_ex (\<lambda>p. p \<in> set jupyter_packages) (pip_packages d)"

definition installs_requirements :: "dockerfile \<Rightarrow> bool" where
  "installs_requirements d =
     list_ex (\<lambda>file. (''requirements.txt'', file) \<in> set (copied d)) (pip_requirements d)"

text \<open>
  The command starts a notebook server when its first two words are
  \<open>jupyter notebook\<close>; the remaining words are its options, in any order.
\<close>

definition launches_notebook_with :: "dockerfile \<Rightarrow> string set \<Rightarrow> bool" where
  "launches_notebook_with d opts =
     (case container_command d of
        None \<Rightarrow> False
      | Some ws \<Rightarrow> take 2 ws = [''jupyter'', ''notebook''] \<and> set (drop 2 ws) = opts)"

definition dockerfile_ok :: "dockerfile \<Rightarrow> bool" where
  "dockerfile_ok d =
     (map_option repository_name (base_image d) = Some ''pytorch'' \<and>
      installs_jupyter d \<and>
      installs_requirements d \<and>
      launches_notebook_with d
        {''--port=8888'', ''--ip=0.0.0.0'', ''--allow-root'', ''--no-browser''} \<and>
      8888 \<in> set (exposed_ports d))"

section \<open>Tensors and the framework operations the notebooks call\<close>

text \<open>
  The notebooks are glue code over the framework: every tensor operation they use is the
  framework's. The operations are modelled by what the framework documents, on tensors
  whose elements are real numbers. The linear layers are computed without rounding;
  \<open>Softmax\<close>, whose result is compared with exact numbers below, takes the arithmetic
  it is computed in as an argument. A tensor is its shape, its elements in row-major
  order (the contiguous layout), and the device it lives on.
\<close>

datatype torch_device = Cpu | Cuda

text \<open>\<^verbatim>\<open>device = "cuda" if torch.cuda.is_available() else "cpu"\<close>\<close>

definition device :: "bool \<Rightarrow> torch_device" where
  "device cuda_is_available = (if cuda_is_available then Cuda else Cpu)"

record 'a tensor =
  shape :: "nat list"
  data :: "'a list"
  dev :: torch_device

text \<open>\<open>t.to(d)\<close>: the same values on device \<open>d\<close>.\<close>

definition tensor_to :: "torch_device \<Rightarrow> 'a tensor \<Rightarrow> 'a tensor" where
  "tensor_to d t = t\<lparr>dev := d\<rparr>"

text \<open>
  The exceptions that can reach the notebook code. \<open>StateDictError\<close> is the
  \<open>RuntimeError\<close> of \<open>load_state_dict\<close>, with the missing keys, the unexpected keys and
  the keys whose sizes differ; \<open>GradError\<close> is the \<open>RuntimeError\<close> of \<open>backward()\<close> on a
  tensor that does not require grad and has no \<open>grad_fn\<close>.
\<close>

datatype error =
    IndexError
  | ShapeError
  | DeviceError
  | ZeroDivisionError
  | FileNotFoundError
  | StateDictError "string list" "string list" "string list"
  | ValueError
  | TypeError
  | GradError

text \<open>Sequencing of calls that may raise: the first exception ends the computation.\<close>

fun then_do :: "error + 'a \<Rightarrow> ('a \<Rightarrow> error + 'b) \<Rightarrow> error + 'b" where
  "then_do (Inl e) f = Inl e"
| "then_do (Inr x) f = f x"

text \<open>
  \<open>nn.Flatten()\<close> has \<open>start_dim=1, end_dim=-1\<close>: it keeps dimension 0 and merges all
  others; a tensor with fewer than two dimensions has no dimension 1.
\<close>

definition Flatten_forward :: "'a tensor \<Rightarrow> error + 'a tensor" where
  "Flatten_forward x =
     (case shape x of
        d0 # d1 # ds \<Rightarrow> Inr (x\<lparr>shape := [d0, prod_list (d1 # ds)]\<rparr>)
      | _ \<Rightarrow> Inl IndexError)"

text \<open>
  \<open>nn.Linear(in_features, out_features)\<close> holds a weight of shape
  \<open>[out_features, in_features]\<close> and a bias of shape \<open>[out_features]\<close>, created on the CPU.
  The framework draws the initial values at random; here they are read from \<open>init\<close>.
\<close>

record Linear =
  in_features :: nat
  out_features :: nat
  weight :: "real tensor"
  bias :: "real tensor"

definition Linear_init :: "nat \<Rightarrow> nat \<Rightarrow> (nat \<Rightarrow> real) \<Rightarrow> Linear" where
  "Linear_init n_in n_out init =
     \<lparr>in_features = n_in, out_features = n_out,
      weight = \<lparr>shape = [n_out, n_in], data = map init [0..<n_out * n_in], dev = Cpu\<rparr>,
      bias = \<lparr>shape = [n_out], data = map (\<lambda>j. init (n_out * n_in + j)) [0..<n_out],
              dev = Cpu\<rparr>\<rparr>"

definition Linear_to :: "torch_device \<Rightarrow> Linear \<Rightarrow> Linear" where
  "Linear_to d l = l\<lparr>weight := tensor_to d (weight l), bias := tensor_to d (bias l)\<rparr>"

text \<open>Row \<open>r\<close> of a matrix with \<open>n\<close> columns, and the inner product of two rows.\<close>

definition row :: "nat \<Rightarrow> 'a list \<Rightarrow> nat \<Rightarrow> 'a list" where
  "row n xs r = take n (drop (r * n) xs)"

definition dot :: "real list \<Rightarrow> real list \<Rightarrow> real" where
  "dot xs ws = sum_list (map2 (*) xs ws)"

text \<open>
  The layer computes \<open>y = x W\<^sup>T + b\<close> over the last dimension of \<open>x\<close>, which must be
  \<open>in_features\<close>; weight, bias and input must be on one device.
\<close>

definition Linear_forward :: "Linear \<Rightarrow> real tensor \<Rightarrow> error + real tensor" where
  "Linear_forward l x =
     (case rev (shape x) of
        [] \<Rightarrow> Inl ShapeError
      | k # lead \<Rightarrow>
          if dev (weight l) = dev x \<and> dev (bias l) = dev x then
            if k = in_features l then
              Inr \<lparr>shape = rev lead @ [out_features l],
                   data = concat (map (\<lambda>r. map (\<lambda>j.
                             dot (row k (data x) r) (row k (data (weight l)) j) + data (bias l) ! j)
                           [0..<out_features l]) [0..<prod_list lead]),
                   dev = dev x\<rparr>
            else Inl ShapeError
          else Inl DeviceError)"

definition ReLU_forward :: "real tensor \<Rightarrow> real tensor" where
  "ReLU_forward x = x\<lparr>data := map (max 0) (data x)\<rparr>"








text \<open>Element \<open>[n, j]\<close> of a two-dimensional tensor.\<close>

definition at2 :: "'a tensor \<Rightarrow> nat \<Rightarrow> nat \<Rightarrow> 'a" where
  "at2 t n j = data t ! (n * (shape t ! 1) + j)"

text \<open>
  \<open>x.argmax(axis)\<close>: the index of the first maximal value along the dimension, which must
  not be empty; the dimension is removed from the shape.
\<close>

fun argmax_from :: "nat \<Rightarrow> real \<Rightarrow> nat \<Rightarrow> real list \<Rightarrow> nat" where
  "argmax_from best v i [] = best"
| "argmax_from best v i (u # us) =
     (if v < u then argmax_from i u (Suc i) us else argmax_from best v (Suc i) us)"

fun argmax_list :: "real list \<Rightarrow> nat" where
  "argmax_list [] = 0"
| "argmax_list (v # vs) = argmax_from 0 v 1 vs"

definition argmax :: "nat \<Rightarrow> real tensor \<Rightarrow> error + int tensor" where
  "argmax axis x =
     (if axis < length (shape x) then
        (let c = shape x ! axis;
             inner = prod_list (drop (Suc axis) (shape x));
             outer = prod_list (take axis (shape x))
         in if c = 0 then Inl IndexError
            else Inr \<lparr>shape = take axis (shape x) @ drop (Suc axis) (shape x),
                      data = map (\<lambda>i. int (argmax_list (map (\<lambda>k.
                                   data x ! ((i div inner) * (c * inner) + k * inner + i mod inner))
                                 [0..<c])))
                               [0..<outer * inner],
                      dev = dev x\<rparr>)
      else Inl IndexError)"

text \<open>
  Broadcasting. Two shapes are aligned at their last dimensions; two sizes go together
  when they are equal or one of them is 1, and the result has the other one; a missing
  dimension counts as 1. \<open>broadcast_dims\<close> works on the reversed shapes. In the result, the
  element at flat index \<open>i\<close> has the coordinates \<open>unravel s i\<close>; an operand of shape \<open>a\<close>
  gives for it its element at the same coordinates, 0 where its size is 1.
\<close>

fun broadcast_dims :: "nat list \<Rightarrow> nat list \<Rightarrow> nat list option" where
  "broadcast_dims [] bs = Some bs"
| "broadcast_dims (a # as) [] = Some (a # as)"
| "broadcast_dims (a # as) (b # bs) =
     (if a = b \<or> b = 1 then map_option ((#) a) (broadcast_dims as bs)
      else if a = 1 then map_option ((#) b) (broadcast_dims as bs)
      else None)"

definition broadcast_shapes :: "nat list \<Rightarrow> nat list \<Rightarrow> nat list option" where
  "broadcast_shapes a b = map_option rev (broadcast_dims (rev a) (rev b))"

fun unravel :: "nat list \<Rightarrow> nat \<Rightarrow> nat list" where
  "unravel [] i = []"
| "unravel (d # ds) i = (i div prod_list ds) # unravel ds (i mod prod_list ds)"

fun ravel :: "nat list \<Rightarrow> nat list \<Rightarrow> nat" where
  "ravel (d # ds) (c # cs) = c * prod_list ds + ravel ds cs"
| "ravel ds cs = 0"

definition broadcast_index :: "nat list \<Rightarrow> nat list \<Rightarrow> nat \<Rightarrow> nat" where
  "broadcast_index s a i =
     ravel a (map2 (\<lambda>d c. if d = 1 then 0 else c) a (drop (length s - length a) (unravel s i)))"

text \<open>
  \<open>a == b\<close> compares elementwise after broadcasting. The operands must be on one device,
  except that a zero-dimensional CPU tensor goes with any tensor.
\<close>

definition tensor_eq :: "'a tensor \<Rightarrow> 'a tensor \<Rightarrow> error + bool tensor" where
  "tensor_eq a b =
     (if dev a = dev b \<or> shape a = [] \<and> dev a = Cpu \<or> shape b = [] \<and> dev b = Cpu then
        (case broadcast_shapes (shape a) (shape b) of
           None \<Rightarrow> Inl ShapeError
         | Some s \<Rightarrow>
             Inr \<lparr>shape = s,
                  data = map (\<lambda>i. data a ! broadcast_index s (shape a) i =
                                   data b ! broadcast_index s (shape b) i)
                           [0..<prod_list s],
                  dev = (if shape a = [] \<and> dev a = Cpu then dev b else dev a)\<rparr>)
      else Inl DeviceError)"

text \<open>\<open>x.type(torch.float)\<close> on a boolean tensor, \<open>x.sum()\<close>, \<open>x.item()\<close> and \<open>len(x)\<close>.\<close>

definition type_float :: "bool tensor \<Rightarrow> real tensor" where
  "type_float x = \<lparr>shape = shape x, data = map (\<lambda>b. if b then 1 else 0) (data x), dev = dev x\<rparr>"

definition tensor_sum :: "real tensor \<Rightarrow> real tensor" where
  "tensor_sum x = \<lparr>shape = [], data = [sum_list (data x)], dev = dev x\<rparr>"

definition item :: "'a tensor \<Rightarrow> error + 'a" where
  "item x = (case data x of [v] \<Rightarrow> Inr v | _ \<Rightarrow> Inl ValueError)"


section \<open>The model class\<close>

text \<open>
  \<^verbatim>\<open>
  class NeuralNetwork(nn.Module):
      def __init__(self):
          super(NeuralNetwork, self).__init__()
          self.flatten = nn.Flatten()
          self.linear_relu_stack = nn.Sequential(
              nn.Linear(28*28, 512),
              nn.ReLU(),
              nn.Linear(512, 512),
              nn.ReLU(),
              nn.Linear(512, 10),
          )

      def forward(self, x):
          x = self.flatten(x)
          logits = self.linear_relu_stack(x)
          return logits
  \<close>
  The class is the same in both notebooks. The modules it is built from are the three
  below; \<open>nn.Sequential\<close> is a list of modules, applied in order.
\<close>

datatype module = Flatten | Linear_module Linear | ReLU

fun module_forward :: "module \<Rightarrow> real tensor \<Rightarrow> error + real tensor" where
  "module_forward Flatten x = Flatten_forward x"
| "module_forward (Linear_module l) x = Linear_forward l x"
| "module_forward ReLU x = Inr (ReLU_forward x)"

fun Sequential_forward :: "module list \<Rightarrow> real tensor \<Rightarrow> error + real tensor" where
  "Sequential_forward [] x = Inr x"
| "Sequential_forward (m # ms) x =
     (case module_forward m x of Inl e \<Rightarrow> Inl e | Inr x' \<Rightarrow> Sequential_forward ms x')"

text \<open>The base classes named in the class statement.\<close>

definition NeuralNetwork_bases :: "string list" where
  "NeuralNetwork_bases = [''nn.Module'']"

record NeuralNetwork =
  flatten :: module
  linear_relu_stack :: "module list"
  training :: bool

text \<open>
  \<open>__init__\<close>: \<open>init i\<close> gives the initial values of the module at position \<open>i\<close> of the
  stack. A new module is in training mode.
\<close>

definition NeuralNetwork_init :: "(nat \<Rightarrow> nat \<Rightarrow> real) \<Rightarrow> NeuralNetwork" where
  "NeuralNetwork_init init =
     \<lparr>flatten = Flatten,
      linear_relu_stack =
        [Linear_module (Linear_init (28 * 28) 512 (init 0)),
         ReLU,
         Linear_module (Linear_init 512 512 (init 2)),
         ReLU,
         Linear_module (Linear_init 512 10 (init 4))],
      training = True\<rparr>"

definition forward :: "NeuralNetwork \<Rightarrow> real tensor \<Rightarrow> error + real tensor" where
  "forward self x =
     (case module_forward (flatten self) x of
        Inl e \<Rightarrow> Inl e
      | Inr x' \<Rightarrow> Sequential_forward (linear_relu_stack self) x')"

text \<open>\<open>model.to(device)\<close> moves every parameter.\<close>

fun module_to :: "torch_device \<Rightarrow> module \<Rightarrow> module" where
  "module_to d (Linear_module l) = Linear_module (Linear_to d l)"
| "module_to d m = m"

definition NeuralNetwork_to :: "torch_device \<Rightarrow> NeuralNetwork \<Rightarrow> NeuralNetwork" where
  "NeuralNetwork_to d self =
     self\<lparr>flatten := module_to d (flatten self),
          linear_relu_stack := map (module_to d) (linear_relu_stack self)\<rparr>"

text \<open>
  What every object of the class satisfies, whatever the values of its parameters: the
  five modules of the stack with their sizes.
\<close>

definition Linear_ok :: "nat \<Rightarrow> nat \<Rightarrow> Linear \<Rightarrow> bool" where
  "Linear_ok n_in n_out l =
     (in_features l = n_in \<and> out_features l = n_out \<and>
      shape (weight l) = [n_out, n_in] \<and> length (data (weight l)) = n_out * n_in \<and>
      shape (bias l) = [n_out] \<and> length (data (bias l)) = n_out)"

fun linear_relu_stack_ok :: "module list \<Rightarrow> bool" where
  "linear_relu_stack_ok [Linear_module l0, ReLU, Linear_module l2, ReLU, Linear_module l4] =
     (Linear_ok 784 512 l0 \<and> Linear_ok 512 512 l2 \<and> Linear_ok 512 10 l4)"
| "linear_relu_stack_ok _ = False"

definition is_NeuralNetwork :: "NeuralNetwork \<Rightarrow> bool" where
  "is_NeuralNetwork self =
     (flatten self = Flatten \<and> linear_relu_stack_ok (linear_relu_stack self))"

section \<open>State dictionaries, saving and loading\<close>

text \<open>
  \<open>model.state_dict()\<close> lists the parameters under their names, in module order:
  \<open>linear_relu_stack.0.weight\<close>, \<open>linear_relu_stack.0.bias\<close>, and so on. \<open>str\<close> is
  Python's \<open>str\<close> on a natural number.
\<close>

fun str :: "nat \<Rightarrow> string" where
  "str n = (if n < 10 then [''0123456789'' ! n]
            else str (n div 10) @ [''0123456789'' ! (n mod 10)])"

declare str.simps [simp del]

type_synonym state_dict = "(string \<times> real tensor) list"

fun module_state_dict :: "string \<Rightarrow> module \<Rightarrow> state_dict" where
  "module_state_dict prefix (Linear_module l) =
     [(prefix @ ''weight'', weight l), (prefix @ ''bias'', bias l)]"
| "module_state_dict prefix m = []"

definition Sequential_state_dict :: "string \<Rightarrow> module list \<Rightarrow> state_dict" where
  "Sequential_state_dict prefix ms =
     concat (map (\<lambda>(i, m). module_state_dict (prefix @ str i @ ''.'') m) (enumerate 0 ms))"

definition state_dict :: "NeuralNetwork \<Rightarrow> state_dict" where
  "state_dict self =
     module_state_dict ''flatten.'' (flatten self) @
     Sequential_state_dict ''linear_relu_stack.'' (linear_relu_stack self)"

definition parameters :: "NeuralNetwork \<Rightarrow> real tensor list" where
  "parameters self = map snd (state_dict self)"

text \<open>The parameters as values: name, shape and elements, without the device.\<close>

definition parameter_values :: "NeuralNetwork \<Rightarrow> (string \<times> nat list \<times> real list) list" where
  "parameter_values self = map (\<lambda>(k, p). (k, shape p, data p)) (state_dict self)"

definition on_device :: "torch_device \<Rightarrow> NeuralNetwork \<Rightarrow> bool" where
  "on_device d self = list_all (\<lambda>p. dev p = d) (parameters self)"

text \<open>
  \<open>torch.save(obj, f)\<close> and \<open>torch.load(f)\<close>. The byte format of the file is the
  framework's; a file is modelled by the object stored in it.
\<close>

type_synonym filesystem = "string \<rightharpoonup> state_dict"

definition torch_save :: "state_dict \<Rightarrow> string \<Rightarrow> filesystem \<Rightarrow> filesystem" where
  "torch_save obj f fs = fs(f \<mapsto> obj)"

definition torch_load :: "string \<Rightarrow> filesystem \<Rightarrow> error + state_dict" where
  "torch_load f fs = (case fs f of None \<Rightarrow> Inl FileNotFoundError | Some obj \<Rightarrow> Inr obj)"

text \<open>
  \<open>model.load_state_dict(sd)\<close> with the default \<open>strict=True\<close>: every parameter of the
  model must be in \<open>sd\<close> with the same shape, and \<open>sd\<close> must hold no other key. Then the
  values are copied into the parameters, which keep their device, and the result
  reports the (empty) lists of missing and unexpected keys, printed as
  \<open><All keys matched successfully>\<close>.
\<close>

record incompatible_keys =
  missing_keys :: "string list"
  unexpected_keys :: "string list"

fun tensor_copy :: "real tensor \<Rightarrow> real tensor option \<Rightarrow> real tensor" where
  "tensor_copy p None = p"
| "tensor_copy p (Some t) = p\<lparr>data := data t\<rparr>"

fun module_load :: "string \<Rightarrow> state_dict \<Rightarrow> module \<Rightarrow> module" where
  "module_load prefix sd (Linear_module l) =
     Linear_module (l\<lparr>weight := tensor_copy (weight l) (map_of sd (prefix @ ''weight'')),
                      bias := tensor_copy (bias l) (map_of sd (prefix @ ''bias''))\<rparr>)"
| "module_load prefix sd m = m"

definition load_state_dict ::
  "NeuralNetwork \<Rightarrow> state_dict \<Rightarrow> error + NeuralNetwork \<times> incompatible_keys" where
  "load_state_dict self sd =
     (let own = state_dict self;
          missing = filter (\<lambda>k. map_of sd k = None) (map fst own);
          unexpected = filter (\<lambda>k. k \<notin> set (map fst own)) (map fst sd);
          mismatched = map fst (filter (\<lambda>(k, p).
                         case map_of sd k of None \<Rightarrow> False | Some t \<Rightarrow> shape t \<noteq> shape p) own)
      in if missing = [] \<and> unexpected = [] \<and> mismatched = [] then
           Inr (self\<lparr>flatten := module_load ''flatten.'' sd (flatten self),
                     linear_relu_stack :=
                       map (\<lambda>(i, m). module_load (''linear_relu_stack.'' @ str i @ ''.'') sd m)
                         (enumerate 0 (linear_relu_stack self))\<rparr>,
                \<lparr>missing_keys = missing, unexpected_keys = unexpected\<rparr>)
         else Inl (StateDictError missing unexpected mismatched))"

section \<open>The training and evaluation loops\<close>

text \<open>
  A \<open>DataLoader\<close> is used through three operations: \<open>len(dataloader.dataset)\<close>,
  \<open>len(dataloader)\<close> and iteration, which yields the batches \<open>(X, y)\<close> in order. The
  number of batches is the length of the list.
\<close>

record dataloader =
  dataset_len :: nat
  batches :: "(real tensor \<times> int tensor) list"

text \<open>
  The lines the quickstart notebook prints. \<open>train\<close> and \<open>test\<close> print
  \<open>loss: l [current/size]\<close> and \<open>Accuracy: a%, Avg loss: l\<close>; a line holds the numbers
  given to the format string, and the rounding done by the format specifications is not
  modelled. The cells print \<open>Using d device\<close>, the model, \<open>Epoch t\<close>, \<open>Done!\<close>,
  \<open>Saved PyTorch Model State to model.pth\<close> and \<open>Predicted: "p", Actual: "a"\<close>.
\<close>

datatype line =
    Train_line real nat nat
  | Test_line real real
  | Using_line torch_device
  | Model_line
  | Epoch_line nat
  | Done_line
  | Saved_line
  | Predicted_line string string

text \<open>
  What the code does to the outside is kept as a list of events, in the order of
  execution: moving a tensor to a device, calling the model (on which devices its
  parameters and its input are, and whether gradients are tracked), calling the loss
  function, the three optimisation calls, switching the mode of the model, printing.
\<close>

datatype event =
    To torch_device
  | Call "torch_device list" torch_device bool
  | Loss
  | ZeroGrad
  | Backward
  | Step
  | Train_mode
  | Eval_mode
  | Print line





text \<open>
  The state the two functions work on: the model object, the gradients of its
  parameters, the global gradient mode (\<open>torch.no_grad()\<close> switches it off and restores
  it), and the events so far. An exception does not undo what was done before it, so
  every function returns the state together with the exception, if any.
\<close>

record 'g world =
  model :: NeuralNetwork
  grads :: 'g
  grad_enabled :: bool
  events :: "event list"

definition record_event :: "event \<Rightarrow> 'g world \<Rightarrow> 'g world" where
  "record_event e w = w\<lparr>events := events w @ [e]\<rparr>"

text \<open>\<open>model(X)\<close>\<close>

definition call_model :: "real tensor \<Rightarrow> 'g world \<Rightarrow> (error + real tensor) \<times> 'g world" where
  "call_model X w =
     (forward (model w) X,
      record_event (Call (map dev (parameters (model w))) (dev X) (grad_enabled w)) w)"

text \<open>
  The loss function is an argument of both functions: a callable from the prediction and
  the labels to the loss, which may raise. The loss is a tensor of one element,
  \<open>loss.item()\<close>, that carries the computation it came from: its \<open>grad_fn\<close>, which maps
  the gradients before \<open>loss.backward()\<close> to the gradients after it. A loss may have no
  \<open>grad_fn\<close> (a constant has none), and a loss computed from a prediction that the model
  made with gradient tracking off has none to use: then \<open>loss.backward()\<close> raises.
  \<open>backward tracked loss g\<close> is \<open>loss.backward()\<close> on the gradients \<open>g\<close>, for a prediction
  made with gradient tracking \<open>tracked\<close>.
\<close>

record 'g loss =
  loss_item :: real
  grad_fn :: "('g \<Rightarrow> 'g) option"

type_synonym 'g loss_fn = "real tensor \<Rightarrow> int tensor \<Rightarrow> error + 'g loss"





text \<open>
  \<^verbatim>\<open>
  def test(dataloader, model, loss_fn):
      size = len(dataloader.dataset)
      num_batches = len(dataloader)
      model.eval()
      test_loss, correct = 0, 0
      with torch.no_grad():
          for X, y in dataloader:
              X, y = X.to(device), y.to(device)
              pred = model(X)
              test_loss += loss_fn(pred, y).item()
              correct += (pred.argmax(1) == y).type(torch.float).sum().item()
      test_loss /= num_batches
      correct /= size
      print(f"Test Error: \n Accuracy: {(100*correct):>0.1f}%, Avg loss: {test_loss:>8f} \n")
  \<close>
  \<open>count_correct\<close> is the right-hand side of the second \<open>+=\<close>; the pair \<open>acc\<close> holds
  \<open>test_loss\<close> and \<open>correct\<close>. Both divisions raise \<open>ZeroDivisionError\<close> on a zero divisor.
\<close>

definition count_correct :: "real tensor \<Rightarrow> int tensor \<Rightarrow> error + real" where
  "count_correct pred y =
     then_do (argmax 1 pred) (\<lambda>a. then_do (tensor_eq a y) (\<lambda>hit. item (tensor_sum (type_float hit))))"

definition test_batch ::
  "'g loss_fn \<Rightarrow> bool \<Rightarrow> real tensor \<times> int tensor \<Rightarrow> real \<times> real \<Rightarrow> 'g world \<Rightarrow>
   (error + real \<times> real) \<times> 'g world" where
  "test_batch loss_fn cuda b acc w =
     (let X = tensor_to (device cuda) (fst b);
          y = tensor_to (device cuda) (snd b);
          w = record_event (To (device cuda)) (record_event (To (device cuda)) w)
      in case call_model X w of
           (Inl e, w) \<Rightarrow> (Inl e, w)
         | (Inr pred, w) \<Rightarrow>
             (case loss_fn pred y of
                Inl e \<Rightarrow> (Inl e, record_event Loss w)
              | Inr loss \<Rightarrow>
                  (case count_correct pred y of
                     Inl e \<Rightarrow> (Inl e, record_event Loss w)
                   | Inr c \<Rightarrow>
                       (Inr (fst acc + loss_item loss, snd acc + c), record_event Loss w))))"

fun test_loop ::
  "'g loss_fn \<Rightarrow> bool \<Rightarrow> (real tensor \<times> int tensor) list \<Rightarrow> real \<times> real \<Rightarrow> 'g world \<Rightarrow>
   (error + real \<times> real) \<times> 'g world" where
  "test_loop loss_fn cuda [] acc w = (Inr acc, w)"
| "test_loop loss_fn cuda (b # rest) acc w =
     (case test_batch loss_fn cuda b acc w of
        (Inl e, w') \<Rightarrow> (Inl e, w')
      | (Inr acc', w') \<Rightarrow> test_loop loss_fn cuda rest acc' w')"

definition test ::
  "dataloader \<Rightarrow> 'g loss_fn \<Rightarrow> bool \<Rightarrow> 'g world \<Rightarrow> error option \<times> 'g world" where
  "test dataloader loss_fn cuda w =
     (let sz = dataset_len dataloader;
          num_batches = length (batches dataloader);
          w = record_event Eval_mode (w\<lparr>model := (model w)\<lparr>training := False\<rparr>\<rparr>);
          prev = grad_enabled w;
          (r, w) = test_loop loss_fn cuda (batches dataloader) (0, 0) (w\<lparr>grad_enabled := False\<rparr>);
          w = w\<lparr>grad_enabled := prev\<rparr>
      in case r of
           Inl e \<Rightarrow> (Some e, w)
         | Inr (test_loss, correct) \<Rightarrow>
             if num_batches = 0 then (Some ZeroDivisionError, w)
             else if sz = 0 then (Some ZeroDivisionError, w)
             else (None, record_event
                     (Print (Test_line (100 * (correct / real sz)) (test_loss / real num_batches))) w))"

section \<open>What the loops are expected to do\<close>

text \<open>
  A batch as the data loaders of the notebooks yield it: \<open>n\<close> images of 784 pixels in
  all (\<open>[n, 1, 28, 28]\<close> for FashionMNIST), and \<open>n\<close> labels among the ten classes.
\<close>

definition batch_ok :: "real tensor \<times> int tensor \<Rightarrow> bool" where
  "batch_ok b =
     (case shape (fst b) of
        n # d1 # ds \<Rightarrow>
          prod_list (d1 # ds) = 784 \<and> length (data (fst b)) = n * 784 \<and>
          shape (snd b) = [n] \<and> length (data (snd b)) = n \<and>
          list_all (\<lambda>c. 0 \<le> c \<and> c < 10) (data (snd b))
      | _ \<Rightarrow> False)"

text \<open>
  A loss function that is defined on the logits of a batch and its labels, and one whose
  losses moreover have a \<open>grad_fn\<close>, as \<open>nn.CrossEntropyLoss()\<close> is and has.
\<close>

definition loss_defined :: "'g loss_fn \<Rightarrow> bool" where
  "loss_defined loss_fn =
     (\<forall>pred y n. shape pred = [n, 10] \<and> length (data pred) = n * 10 \<and>
        shape y = [n] \<and> length (data y) = n \<and> list_all (\<lambda>c. 0 \<le> c \<and> c < 10) (data y) \<and>
        dev pred = dev y \<longrightarrow> (\<exists>l. loss_fn pred y = Inr l))"







text \<open>
  The number of examples of a batch whose predicted class, the first index of the
  largest of the ten logits, is the label; and what evaluating one batch gives: its loss
  and that number.
\<close>

definition matches :: "real tensor \<Rightarrow> int tensor \<Rightarrow> nat" where
  "matches pred y =
     length (filter (\<lambda>r. int (argmax_list (map (at2 pred r) [0..<10])) = data y ! r)
       [0..<length (data y)])"

definition evaluate_batch ::
  "NeuralNetwork \<Rightarrow> 'g loss_fn \<Rightarrow> bool \<Rightarrow> real tensor \<times> int tensor \<Rightarrow> (real \<times> nat) option" where
  "evaluate_batch self loss_fn cuda b =
     (case forward self (tensor_to (device cuda) (fst b)) of
        Inl e \<Rightarrow> None
      | Inr pred \<Rightarrow>
          (case loss_fn pred (tensor_to (device cuda) (snd b)) of
             Inl e \<Rightarrow> None
           | Inr l \<Rightarrow> Some (loss_item l, matches pred (snd b))))"

text \<open>The events of one batch of \<open>test\<close>: the model is called with gradients off.\<close>

definition batch_events :: "torch_device list \<Rightarrow> bool \<Rightarrow> event list" where
  "batch_events devs cuda = [To (device cuda), To (device cuda), Call devs (device cuda) False, Loss]"

section \<open>The cells of the quickstart notebook\<close>
















section \<open>Example inputs\<close>

text \<open>
  Small inputs on which the theorems below are instantiated: a model with all parameters
  zero, a minibatch of three images as in the model notebook, a batch of two labelled
  images, a data loader of 101 such batches, a loss function whose loss is 0 and whose
  \<open>grad_fn\<close> leaves the gradients as they are (as that of \<open>(pred * 0).sum()\<close> does when
  they are zero), and an optimizer that changes nothing. \<open>zero_logits\<close> are the logits of
  that model, \<open>tenths\<close> a tensor of the same shape filled with the float32 nearest to 1/10.
\<close>

definition example_model :: NeuralNetwork where
  "example_model = NeuralNetwork_to Cpu (NeuralNetwork_init (\<lambda>i k. 0))"


definition example_batch :: "real tensor \<times> int tensor" where
  "example_batch =
     (\<lparr>shape = [2, 1, 28, 28], data = replicate 1568 0, dev = Cpu\<rparr>,
      \<lparr>shape = [2], data = [9, 2], dev = Cpu\<rparr>)"

definition example_dataloader :: dataloader where
  "example_dataloader = \<lparr>dataset_len = 202, batches = replicate 101 example_batch\<rparr>"

definition empty_dataloader :: dataloader where
  "empty_dataloader = \<lparr>dataset_len = 0, batches = []\<rparr>"

definition example_loss_fn :: "unit loss_fn" where
  "example_loss_fn pred y = Inr \<lparr>loss_item = 0, grad_fn = Some (\<lambda>g. g)\<rparr>"



definition example_world :: "unit world" where
  "example_world = \<lparr>model = example_model, grads = (), grad_enabled = True, events = []\<rparr>"



section \<open>Properties of the framework operations and of the loops\<close>


lemma length_rows: "length (concat (map (\<lambda>r. map (g r) [0..<m]) [0..<n])) = n * m"
  by (simp add: length_concat o_def sum_list_triv)

lemma Linear_forward_shape:
  assumes "shape x = [n, k]" "in_features l = k" "dev (weight l) = dev x" "dev (bias l) = dev x"
  shows "\<exists>y. Linear_forward l x = Inr y \<and> shape y = [n, out_features l] \<and>
             length (data y) = n * out_features l \<and> dev y = dev x"
  using assms by (simp add: Linear_forward_def length_rows)












































lemma str_digits: "str 0 = ''0''" "str (Suc (Suc 0)) = ''2''" "str (Suc (Suc (Suc (Suc 0)))) = ''4''"
  by (simp_all add: str.simps)

lemma enumerate5:
  "enumerate 0 [a, b, c, d, e] = [(0, a), (1, b), (2, c), (3, d), (4, e)]"
  by (simp add: numeral_eq_Suc)

lemma state_dict_NeuralNetwork:
  assumes "flatten self = Flatten"
    "linear_relu_stack self = [Linear_module l0, ReLU, Linear_module l2, ReLU, Linear_module l4]"
  shows "state_dict self =
    [(''linear_relu_stack.0.weight'', weight l0), (''linear_relu_stack.0.bias'', bias l0),
     (''linear_relu_stack.2.weight'', weight l2), (''linear_relu_stack.2.bias'', bias l2),
     (''linear_relu_stack.4.weight'', weight l4), (''linear_relu_stack.4.bias'', bias l4)]"
  using assms by (simp add: state_dict_def Sequential_state_dict_def enumerate5 str_digits)

lemma parameters_NeuralNetwork:
  assumes "flatten self = Flatten"
    "linear_relu_stack self = [Linear_module l0, ReLU, Linear_module l2, ReLU, Linear_module l4]"
  shows "parameters self = [weight l0, bias l0, weight l2, bias l2, weight l4, bias l4]"
  by (simp add: parameters_def state_dict_NeuralNetwork [OF assms])

lemma is_NeuralNetworkE:
  assumes "is_NeuralNetwork self"
  obtains l0 l2 l4 where "flatten self = Flatten"
    "linear_relu_stack self = [Linear_module l0, ReLU, Linear_module l2, ReLU, Linear_module l4]"
    "Linear_ok 784 512 l0" "Linear_ok 512 512 l2" "Linear_ok 512 10 l4"
  using assms unfolding is_NeuralNetwork_def
  by (auto elim: linear_relu_stack_ok.elims(2))

lemma is_NeuralNetwork_init: "is_NeuralNetwork (NeuralNetwork_to d (NeuralNetwork_init init))"
  by (simp add: is_NeuralNetwork_def NeuralNetwork_to_def NeuralNetwork_init_def Linear_ok_def
      Linear_init_def Linear_to_def tensor_to_def)

lemma batch_okE:
  assumes "batch_ok b"
  obtains n d1 ds where "shape (fst b) = n # d1 # ds" "prod_list (d1 # ds) = 784"
    "length (data (fst b)) = n * 784" "shape (snd b) = [n]" "length (data (snd b)) = n"
    "list_all (\<lambda>c. 0 \<le> c \<and> c < 10) (data (snd b))"
  using assms unfolding batch_ok_def by (auto split: list.splits)

lemma forward_ok:
  assumes nn: "is_NeuralNetwork self" and on: "on_device d self"
    and sh: "shape x = n # d1 # ds" "prod_list (d1 # ds) = 784" and dx: "dev x = d"
  shows "\<exists>y. forward self x = Inr y \<and> shape y = [n, 10] \<and> length (data y) = n * 10 \<and> dev y = d"
proof -
  from nn obtain l0 l2 l4 where m: "flatten self = Flatten"
    "linear_relu_stack self = [Linear_module l0, ReLU, Linear_module l2, ReLU, Linear_module l4]"
    and ok: "Linear_ok 784 512 l0" "Linear_ok 512 512 l2" "Linear_ok 512 10 l4"
    by (rule is_NeuralNetworkE)
  from on have devs: "dev (weight l0) = d" "dev (bias l0) = d" "dev (weight l2) = d"
    "dev (bias l2) = d" "dev (weight l4) = d" "dev (bias l4) = d"
    by (simp_all add: on_device_def parameters_NeuralNetwork [OF m])
  let ?f = "x\<lparr>shape := [n, 784]\<rparr>"
  have f: "Flatten_forward x = Inr ?f"
    using sh by (simp add: Flatten_forward_def)
  obtain h0 where h0: "Linear_forward l0 ?f = Inr h0" "shape h0 = [n, 512]" "dev h0 = d"
    using Linear_forward_shape [of ?f n 784 l0] ok(1) devs dx by (auto simp: Linear_ok_def)
  let ?r0 = "ReLU_forward h0"
  have r0: "shape ?r0 = [n, 512]" "dev ?r0 = d"
    using h0 by (simp_all add: ReLU_forward_def)
  obtain h2 where h2: "Linear_forward l2 ?r0 = Inr h2" "shape h2 = [n, 512]" "dev h2 = d"
    using Linear_forward_shape [of ?r0 n 512 l2] ok(2) devs r0 by (auto simp: Linear_ok_def)
  let ?r2 = "ReLU_forward h2"
  have r2: "shape ?r2 = [n, 512]" "dev ?r2 = d"
    using h2 by (simp_all add: ReLU_forward_def)
  obtain y where y: "Linear_forward l4 ?r2 = Inr y" "shape y = [n, 10]"
      "length (data y) = n * 10" "dev y = d"
    using Linear_forward_shape [of ?r2 n 512 l4] ok(3) devs r2 by (auto simp: Linear_ok_def)
  have "forward self x = Inr y"
    using f h0(1) h2(1) y(1) by (simp add: forward_def m)
  with y show ?thesis by blast
qed




lemma forward_training: "forward (self\<lparr>training := t\<rparr>) x = forward self x"
  by (simp add: forward_def split: sum.splits)

lemma state_dict_training: "state_dict (self\<lparr>training := t\<rparr>) = state_dict self"
  by (simp add: state_dict_def)

lemma is_NeuralNetwork_training: "is_NeuralNetwork (self\<lparr>training := t\<rparr>) = is_NeuralNetwork self"
  by (simp add: is_NeuralNetwork_def)

lemma on_device_training: "on_device d (self\<lparr>training := t\<rparr>) = on_device d self"
  by (simp add: on_device_def parameters_def state_dict_training)

lemma evaluate_batch_training:
  "evaluate_batch (self\<lparr>training := t\<rparr>) loss_fn cuda b = evaluate_batch self loss_fn cuda b"
  by (simp add: evaluate_batch_def forward_training)



lemma sum_list_indicator:
  "sum_list (map (\<lambda>x. if P x then 1 else 0) xs) = real (length (filter P xs))"
  by (induction xs) simp_all

lemma broadcast_index_vector: "i < n \<Longrightarrow> broadcast_index [n] [n] i = i"
  by (auto simp: broadcast_index_def)

lemma tensor_eq_vectors:
  assumes "shape a = [n]" "shape b = [n]" "dev a = dev b"
  shows "tensor_eq a b =
     Inr \<lparr>shape = [n], data = map (\<lambda>i. data a ! i = data b ! i) [0..<n], dev = dev a\<rparr>"
proof -
  have "map (\<lambda>i. data a ! broadcast_index [n] [n] i = data b ! broadcast_index [n] [n] i) [0..<n] =
      map (\<lambda>i. data a ! i = data b ! i) [0..<n]"
    by (intro map_cong refl) (simp add: broadcast_index_vector)
  then show ?thesis
    using assms by (simp add: tensor_eq_def broadcast_shapes_def)
qed

lemma count_correct_eq:
  assumes p: "shape pred = [n, 10]" and y: "shape y = [n]" "length (data y) = n"
    and d: "dev pred = dev y"
  shows "count_correct pred y = Inr (real (matches pred y))"
proof -
  let ?a = "\<lparr>shape = [n], data = map (\<lambda>r. int (argmax_list (map (at2 pred r) [0..<10]))) [0..<n],
             dev = dev pred\<rparr>"
  have at: "at2 pred r = (\<lambda>k. data pred ! (r * 10 + k))" for r
    using p by (intro ext) (simp add: at2_def)
  have a: "argmax 1 pred = Inr ?a"
    using p by (simp add: argmax_def at)
  have "map (\<lambda>i. data ?a ! i = data y ! i) [0..<n] =
      map (\<lambda>r. int (argmax_list (map (at2 pred r) [0..<10])) = data y ! r) [0..<n]"
    by (intro map_cong refl) simp
  then have "tensor_eq ?a y =
      Inr \<lparr>shape = [n],
           data = map (\<lambda>r. int (argmax_list (map (at2 pred r) [0..<10])) = data y ! r) [0..<n],
           dev = dev pred\<rparr>"
    using tensor_eq_vectors [of ?a n y] y(1) d by simp
  then show ?thesis
    using a y(2)
    by (simp add: count_correct_def type_float_def tensor_sum_def item_def matches_def o_def
        sum_list_indicator)
qed

lemma test_batch_ok:
  assumes nn: "is_NeuralNetwork (model w)" and on: "on_device (device cuda) (model w)"
    and b: "batch_ok b" and loss: "loss_defined loss_fn" and g: "grad_enabled w = False"
  shows "\<exists>l c. evaluate_batch (model w) loss_fn cuda b = Some (l, c) \<and>
     test_batch loss_fn cuda b acc w =
       (Inr (fst acc + l, snd acc + real c),
        w\<lparr>events := events w @ batch_events (map dev (parameters (model w))) cuda\<rparr>)"
proof -
  let ?d = "device cuda"
  let ?X = "tensor_to ?d (fst b)"
  let ?y = "tensor_to ?d (snd b)"
  from b obtain n d1 ds where sh: "shape (fst b) = n # d1 # ds" "prod_list (d1 # ds) = 784"
    and y: "shape (snd b) = [n]" "length (data (snd b)) = n"
      "list_all (\<lambda>c. 0 \<le> c \<and> c < 10) (data (snd b))"
    by (rule batch_okE)
  have shX: "shape ?X = n # d1 # ds" "dev ?X = ?d"
    using sh by (simp_all add: tensor_to_def)
  obtain pred where pred: "forward (model w) ?X = Inr pred" "shape pred = [n, 10]"
      "length (data pred) = n * 10" "dev pred = ?d"
    using forward_ok [OF nn on shX(1) sh(2) shX(2)] by blast
  have "\<exists>l. loss_fn pred ?y = Inr l"
    using loss pred y unfolding loss_defined_def
    by (simp add: tensor_to_def)
  then obtain l where l: "loss_fn pred ?y = Inr l" ..
  have c: "count_correct pred ?y = Inr (real (matches pred ?y))"
    using pred y by (intro count_correct_eq [of pred n]) (simp_all add: tensor_to_def)
  have m: "matches pred ?y = matches pred (snd b)"
    by (simp add: matches_def tensor_to_def)
  have "evaluate_batch (model w) loss_fn cuda b = Some (loss_item l, matches pred (snd b))"
    using pred(1) l by (simp add: evaluate_batch_def)
  moreover have "test_batch loss_fn cuda b acc w =
       (Inr (fst acc + loss_item l, snd acc + real (matches pred (snd b))),
        w\<lparr>events := events w @ batch_events (map dev (parameters (model w))) cuda\<rparr>)"
    using pred(1) l c m g
    by (simp add: test_batch_def call_model_def record_event_def Let_def batch_events_def tensor_to_def)
  ultimately show ?thesis by blast
qed

lemma test_loop_ok:
  assumes loss: "loss_defined loss_fn"
  shows "is_NeuralNetwork (model w) \<Longrightarrow> on_device (device cuda) (model w) \<Longrightarrow>
     grad_enabled w = False \<Longrightarrow> list_all batch_ok bs \<Longrightarrow>
     \<exists>rs. map (evaluate_batch (model w) loss_fn cuda) bs = map Some rs \<and>
       test_loop loss_fn cuda bs acc w =
         (Inr (fst acc + sum_list (map fst rs), snd acc + real (sum_list (map snd rs))),
          w\<lparr>events := events w @
             concat (map (\<lambda>b. batch_events (map dev (parameters (model w))) cuda) bs)\<rparr>)"
proof (induction bs arbitrary: acc w)
  case Nil
  then show ?case by simp
next
  case (Cons b bs)
  from Cons.prems have b: "batch_ok b" and bs: "list_all batch_ok bs" by simp_all
  let ?ev = "batch_events (map dev (parameters (model w))) cuda"
  let ?w1 = "w\<lparr>events := events w @ ?ev\<rparr>"
  obtain l c where lc: "evaluate_batch (model w) loss_fn cuda b = Some (l, c)"
      "test_batch loss_fn cuda b acc w = (Inr (fst acc + l, snd acc + real c), ?w1)"
    using test_batch_ok [OF Cons.prems(1,2) b loss Cons.prems(3)] by blast
  have w1: "is_NeuralNetwork (model ?w1)" "on_device (device cuda) (model ?w1)"
      "grad_enabled ?w1 = False"
    using Cons.prems by simp_all
  obtain rs where rs: "map (evaluate_batch (model ?w1) loss_fn cuda) bs = map Some rs"
      "test_loop loss_fn cuda bs (fst acc + l, snd acc + real c) ?w1 =
         (Inr (fst (fst acc + l, snd acc + real c) + sum_list (map fst rs),
               snd (fst acc + l, snd acc + real c) + real (sum_list (map snd rs))),
          ?w1\<lparr>events := events ?w1 @
             concat (map (\<lambda>b. batch_events (map dev (parameters (model ?w1))) cuda) bs)\<rparr>)"
    using Cons.IH [OF w1 bs] by blast
  show ?case
    using lc rs by (intro exI [of _ "(l, c) # rs"]) (simp add: add.assoc)
qed

lemma test_batch_frame:
  "model (snd (test_batch loss_fn cuda b acc w)) = model w \<and>
   grads (snd (test_batch loss_fn cuda b acc w)) = grads w"
  by (simp add: test_batch_def call_model_def record_event_def Let_def split: sum.splits)

lemma test_loop_frame:
  "model (snd (test_loop loss_fn cuda bs acc w)) = model w \<and>
   grads (snd (test_loop loss_fn cuda bs acc w)) = grads w"
proof (induction bs arbitrary: acc w)
  case Nil
  show ?case by simp
next
  case (Cons b bs)
  show ?case
  proof (cases "test_batch loss_fn cuda b acc w")
    case (Pair r w1)
    then have w1: "model w1 = model w" "grads w1 = grads w"
      using test_batch_frame [of loss_fn cuda b acc w] by simp_all
    show ?thesis
      using Pair w1 Cons.IH by (cases r) simp_all
  qed
qed

lemma on_device_init: "on_device d (NeuralNetwork_to d (NeuralNetwork_init init))"
proof -
  have st: "flatten (NeuralNetwork_to d (NeuralNetwork_init init)) = Flatten"
    "linear_relu_stack (NeuralNetwork_to d (NeuralNetwork_init init)) =
       [Linear_module (Linear_to d (Linear_init (28 * 28) 512 (init 0))), ReLU,
        Linear_module (Linear_to d (Linear_init 512 512 (init 2))), ReLU,
        Linear_module (Linear_to d (Linear_init 512 10 (init 4)))]"
    by (simp_all add: NeuralNetwork_to_def NeuralNetwork_init_def)
  show ?thesis
    by (simp add: on_device_def parameters_NeuralNetwork [OF st] Linear_to_def tensor_to_def)
qed

lemma load_saved_state_dict:
  assumes "is_NeuralNetwork saved"
  shows "\<exists>loaded.
     then_do (torch_load ''model.pth'' (torch_save (state_dict saved) ''model.pth'' fs))
       (load_state_dict (NeuralNetwork_init init)) =
       Inr (loaded, \<lparr>missing_keys = [], unexpected_keys = []\<rparr>) \<and>
     parameter_values loaded = parameter_values saved"
proof -
  from assms obtain l0 l2 l4 where m: "flatten saved = Flatten"
    "linear_relu_stack saved = [Linear_module l0, ReLU, Linear_module l2, ReLU, Linear_module l4]"
    and ok: "Linear_ok 784 512 l0" "Linear_ok 512 512 l2" "Linear_ok 512 10 l4"
    by (rule is_NeuralNetworkE)
  note sd = state_dict_NeuralNetwork [OF m]
  have fresh: "flatten (NeuralNetwork_init init) = Flatten"
    "linear_relu_stack (NeuralNetwork_init init) =
       [Linear_module (Linear_init (28 * 28) 512 (init 0)), ReLU,
        Linear_module (Linear_init 512 512 (init 2)), ReLU,
        Linear_module (Linear_init 512 10 (init 4))]"
    by (simp_all add: NeuralNetwork_init_def)
  note sd0 = state_dict_NeuralNetwork [OF fresh]
  have ld: "torch_load ''model.pth'' (torch_save (state_dict saved) ''model.pth'' fs) =
      Inr (state_dict saved)"
    by (simp add: torch_load_def torch_save_def)
  let ?m' = "(NeuralNetwork_init init)\<lparr>flatten := module_load ''flatten.'' (state_dict saved) Flatten,
     linear_relu_stack := map (\<lambda>(i, m). module_load (''linear_relu_stack.'' @ str i @ ''.'') (state_dict saved) m)
        (enumerate 0 (linear_relu_stack (NeuralNetwork_init init)))\<rparr>"
  have l: "load_state_dict (NeuralNetwork_init init) (state_dict saved) =
      Inr (?m', \<lparr>missing_keys = [], unexpected_keys = []\<rparr>)"
    using ok unfolding load_state_dict_def sd0 fresh
    by (simp add: sd Linear_ok_def Linear_init_def)
  have st: "flatten ?m' = Flatten"
    "linear_relu_stack ?m' =
       [Linear_module ((Linear_init (28 * 28) 512 (init 0))\<lparr>weight := (weight (Linear_init (28 * 28) 512 (init 0)))\<lparr>data := data (weight l0)\<rparr>,
           bias := (bias (Linear_init (28 * 28) 512 (init 0)))\<lparr>data := data (bias l0)\<rparr>\<rparr>), ReLU,
        Linear_module ((Linear_init 512 512 (init 2))\<lparr>weight := (weight (Linear_init 512 512 (init 2)))\<lparr>data := data (weight l2)\<rparr>,
           bias := (bias (Linear_init 512 512 (init 2)))\<lparr>data := data (bias l2)\<rparr>\<rparr>), ReLU,
        Linear_module ((Linear_init 512 10 (init 4))\<lparr>weight := (weight (Linear_init 512 10 (init 4)))\<lparr>data := data (weight l4)\<rparr>,
           bias := (bias (Linear_init 512 10 (init 4)))\<lparr>data := data (bias l4)\<rparr>\<rparr>)]"
    unfolding fresh by (simp_all add: enumerate5 str_digits sd)
  note sd' = state_dict_NeuralNetwork [OF st]
  have "parameter_values ?m' = parameter_values saved"
    by (simp only: parameter_values_def sd')
      (use ok in \<open>simp add: sd Linear_ok_def Linear_init_def\<close>)
  with ld l show ?thesis by simp
qed




































section \<open>Theorems\<close>

text \<open>
  C1: \<open>NeuralNetwork\<close> names the framework's module class as its only base class, and the
  forward pass of a model as constructed (with any initial values, moved to any device)
  is exactly: flatten, \<open>Linear(784, 512)\<close>, ReLU, \<open>Linear(512, 512)\<close>, ReLU,
  \<open>Linear(512, 10)\<close>, in this order; the result of the last layer is returned.
\<close>

theorem forward_applies_layer_stack:
  "NeuralNetwork_bases = [''nn.Module''] \<and>
   forward (NeuralNetwork_to d (NeuralNetwork_init init)) x =
     then_do (then_do (then_do (then_do (then_do (Flatten_forward x)
       (Linear_forward (Linear_to d (Linear_init 784 512 (init 0)))))
       (\<lambda>h. Inr (ReLU_forward h)))
       (Linear_forward (Linear_to d (Linear_init 512 512 (init 2)))))
       (\<lambda>h. Inr (ReLU_forward h)))
       (Linear_forward (Linear_to d (Linear_init 512 10 (init 4))))"
  by (simp add: NeuralNetwork_bases_def forward_def NeuralNetwork_to_def NeuralNetwork_init_def
      split: sum.splits)



text \<open>
  C3: for every \<open>NeuralNetwork\<close> \<open>saved\<close>, saving its state dictionary to \<open>model.pth\<close>,
  loading the file and passing the result to \<open>load_state_dict\<close> of a freshly constructed
  \<open>NeuralNetwork\<close> succeeds with no missing and no unexpected key, and the parameters of
  the new model have the names, shapes and values of the parameters that were saved.
\<close>

theorem save_load_round_trip:
  assumes "is_NeuralNetwork saved"
  shows "\<exists>loaded.
     then_do (torch_load ''model.pth'' (torch_save (state_dict saved) ''model.pth'' fs))
       (load_state_dict (NeuralNetwork_init init)) =
       Inr (loaded, \<lparr>missing_keys = [], unexpected_keys = []\<rparr>) \<and>
     parameter_values loaded = parameter_values saved"
  using assms by (rule load_saved_state_dict)

theorem save_load_round_trip_witness:
  "is_NeuralNetwork (NeuralNetwork_to Cuda (NeuralNetwork_init (\<lambda>i k. 1))) \<and>
   (\<exists>model'.
     then_do (torch_load ''model.pth''
                (torch_save (state_dict (NeuralNetwork_to Cuda (NeuralNetwork_init (\<lambda>i k. 1))))
                   ''model.pth'' Map.empty))
       (load_state_dict (NeuralNetwork_init (\<lambda>i k. 0))) =
       Inr (model', \<lparr>missing_keys = [], unexpected_keys = []\<rparr>) \<and>
     parameter_values model' =
       parameter_values (NeuralNetwork_to Cuda (NeuralNetwork_init (\<lambda>i k. 1))))"
proof -
  have h: "is_NeuralNetwork (NeuralNetwork_to Cuda (NeuralNetwork_init (\<lambda>i k. 1)))"
    by (rule is_NeuralNetwork_init)
  from save_load_round_trip [OF h, of Map.empty "\<lambda>i k. 0"]
  show ?thesis using h by simp
qed

text \<open>
  C4, as amended: let the data loader have at least one batch, over a dataset of
  \<open>N > 0\<close> examples, every batch holding \<open>n\<close> images of 784 pixels and a label tensor of
  shape \<open>[n]\<close> with labels among the ten classes; let the model be a \<open>NeuralNetwork\<close> on
  the selected device and the loss function be defined on the logits and labels of such
  batches. Then \<open>test\<close> returns without an exception; every batch has logits and a loss;
  the model was called once per batch with gradient tracking off; and the one line
  printed gives the accuracy \<open>100 * correct / N\<close>, \<open>correct\<close> the number of examples whose
  predicted class is the label, and the average loss, the sum of the losses of the
  batches divided by their number.
\<close>

theorem test_reports_accuracy_and_loss:
  assumes nn: "is_NeuralNetwork (model w)" and on: "on_device (device cuda) (model w)"
    and bs: "list_all batch_ok (batches dataloader)" and loss: "loss_defined loss_fn"
    and B: "0 < length (batches dataloader)" and N: "0 < dataset_len dataloader"
  shows "\<exists>rs w'.
     map (evaluate_batch (model w) loss_fn cuda) (batches dataloader) = map Some rs \<and>
     test dataloader loss_fn cuda w = (None, w') \<and>
     events w' = events w @ Eval_mode #
       concat (map (\<lambda>b. batch_events (map dev (parameters (model w))) cuda) (batches dataloader)) @
       [Print (Test_line
          (100 * (real (sum_list (map snd rs)) / real (dataset_len dataloader)))
          (sum_list (map fst rs) / real (length (batches dataloader))))]"
proof -
  let ?w0 = "(record_event Eval_mode (w\<lparr>model := (model w)\<lparr>training := False\<rparr>\<rparr>))\<lparr>grad_enabled := False\<rparr>"
  have w0: "is_NeuralNetwork (model ?w0)" "on_device (device cuda) (model ?w0)"
      "grad_enabled ?w0 = False"
    using nn on by (simp_all add: record_event_def is_NeuralNetwork_training on_device_training)
  obtain rs where rs: "map (evaluate_batch (model ?w0) loss_fn cuda) (batches dataloader) = map Some rs"
    "test_loop loss_fn cuda (batches dataloader) (0, 0) ?w0 =
         (Inr (fst (0::real, 0::real) + sum_list (map fst rs), snd (0::real, 0::real) + real (sum_list (map snd rs))),
          ?w0\<lparr>events := events ?w0 @
             concat (map (\<lambda>b. batch_events (map dev (parameters (model ?w0))) cuda) (batches dataloader))\<rparr>)"
    using test_loop_ok [OF loss w0 bs, of "(0, 0)"] by blast
  have m0: "model ?w0 = (model w)\<lparr>training := False\<rparr>"
    by (simp add: record_event_def)
  have ev: "map (evaluate_batch (model w) loss_fn cuda) (batches dataloader) = map Some rs"
    using rs(1) unfolding m0 evaluate_batch_training .
  have par: "parameters (model ?w0) = parameters (model w)"
    unfolding m0 by (simp add: parameters_def state_dict_training)
  show ?thesis
    using ev B N rs(2) unfolding par
    by (intro exI [of _ rs]) (simp add: test_def Let_def record_event_def)
qed

theorem test_reports_accuracy_and_loss_witness:
  "is_NeuralNetwork (model example_world) \<and>
   on_device (device False) (model example_world) \<and>
   list_all batch_ok (batches example_dataloader) \<and>
   loss_defined example_loss_fn \<and>
   0 < length (batches example_dataloader) \<and>
   0 < dataset_len example_dataloader \<and>
   (\<exists>rs w'.
     map (evaluate_batch (model example_world) example_loss_fn False) (batches example_dataloader) =
       map Some rs \<and>
     test example_dataloader example_loss_fn False example_world = (None, w') \<and>
     events w' = events example_world @ Eval_mode #
       concat (map (\<lambda>b. batch_events (map dev (parameters (model example_world))) False)
                 (batches example_dataloader)) @
       [Print (Test_line
          (100 * (real (sum_list (map snd rs)) / real (dataset_len example_dataloader)))
          (sum_list (map fst rs) / real (length (batches example_dataloader))))])"
proof -
  have h1: "is_NeuralNetwork (model example_world)"
    by (simp add: example_world_def example_model_def is_NeuralNetwork_init)
  have h2: "on_device (device False) (model example_world)"
    by (simp add: example_world_def example_model_def device_def on_device_init)
  have h3: "list_all batch_ok (batches example_dataloader)"
    by (simp add: example_dataloader_def example_batch_def batch_ok_def list_all_iff)
  have h4: "loss_defined example_loss_fn"
    by (simp add: loss_defined_def example_loss_fn_def)
  have h5: "0 < length (batches example_dataloader)"
    by (simp add: example_dataloader_def)
  have h6: "0 < dataset_len example_dataloader"
    by (simp add: example_dataloader_def)
  from test_reports_accuracy_and_loss [OF h1 h2 h3 h4 h5 h6]
  show ?thesis using h1 h2 h3 h4 h5 h6 by simp
qed

text \<open>
  On a data loader without batches, \<open>test\<close> prints nothing: \<open>test_loss /= num_batches\<close>
  raises \<open>ZeroDivisionError\<close>.
\<close>

theorem test_empty_dataloader_raises:
  "fst (test empty_dataloader example_loss_fn False example_world) = Some ZeroDivisionError \<and>
   events (snd (test empty_dataloader example_loss_fn False example_world)) = [Eval_mode]"
  by (simp add: test_def empty_dataloader_def example_world_def record_event_def)

text \<open>
  C6: both Dockerfiles start from an image whose repository is \<open>pytorch\<close>, install a
  Jupyter package with pip, copy \<open>requirements.txt\<close> and install it with \<open>pip3 install -r\<close>,
  start \<open>jupyter notebook\<close> with exactly the options \<open>--port=8888\<close>, \<open>--ip=0.0.0.0\<close>,
  \<open>--allow-root\<close> and \<open>--no-browser\<close>, and expose port 8888.
\<close>

theorem dockerfiles_launch_notebook:
  "dockerfile_ok Dockerfile_nvidia \<and> dockerfile_ok Dockerfile_runtime"
  by (simp add: dockerfile_ok_def Dockerfile_nvidia_def Dockerfile_runtime_def
      repository_name_def installs_jupyter_def installs_requirements_def
      launches_notebook_with_def jupyter_packages_def insert_commute)






text \<open>
  C10: whatever the data loader, the loss function and the state, and whether \<open>test\<close>
  returns or raises, the state dictionary of the model (every parameter, with its name,
  shape, values and device) and the gradients are the same after \<open>test\<close> as before it.
\<close>

theorem test_leaves_parameters_unchanged:
  "state_dict (model (snd (test dataloader loss_fn cuda w))) = state_dict (model w) \<and>
   parameters (model (snd (test dataloader loss_fn cuda w))) = parameters (model w) \<and>
   grads (snd (test dataloader loss_fn cuda w)) = grads w"
proof -
  let ?w0 = "(record_event Eval_mode (w\<lparr>model := (model w)\<lparr>training := False\<rparr>\<rparr>))\<lparr>grad_enabled := False\<rparr>"
  obtain r w1 where r: "test_loop loss_fn cuda (batches dataloader) (0, 0) ?w0 = (r, w1)"
    by (cases "test_loop loss_fn cuda (batches dataloader) (0, 0) ?w0")
  then have w1: "model w1 = (model w)\<lparr>training := False\<rparr>" "grads w1 = grads w"
    using test_loop_frame [of loss_fn cuda "batches dataloader" "(0, 0)" ?w0]
    by (simp_all add: record_event_def)
  show ?thesis
    using r w1
    by (simp add: test_def Let_def record_event_def state_dict_training parameters_def
        split: sum.splits prod.splits)
qed

end
